theory Spec2Isabelle
  imports Complex_Main
begin

section \<open>Values exchanged with the backend services\<close>

text \<open>
  The gateway (graphql-gateway/app.py) reads backend payloads with \<^verbatim>\<open>response.json()\<close>
  and keeps the values it finds without checking their Python type, so a payload value is
  a JSON value. A parsed JSON object is a Python dict: it is an association list here, read
  with \<open>map_of\<close>. A Python float is modelled as a real number (rounding is not modelled).
\<close>

datatype json =
    JNull
  | JBool bool
  | JInt int
  | JFloat real
  | JStr string
  | JArr "json list"
  | JObj "(string \<times> json) list"

text \<open>The exceptions the resolvers can meet inside their \<^verbatim>\<open>try\<close> blocks.\<close>

datatype exn =
    KeyError string
  | TypeError
  | AttributeError
  | JSONDecodeError
  | TransportError

definition bnd :: "exn + 'a \<Rightarrow> ('a \<Rightarrow> exn + 'b) \<Rightarrow> exn + 'b" where
  "bnd m f = (case m of Inl e \<Rightarrow> Inl e | Inr v \<Rightarrow> f v)"

text \<open>\<^verbatim>\<open>d[k]\<close> with a string key: only a dict can be subscripted so.\<close>

fun subscript :: "json \<Rightarrow> string \<Rightarrow> exn + json" where
  "subscript (JObj kvs) k = (case map_of kvs k of None \<Rightarrow> Inl (KeyError k) | Some v \<Rightarrow> Inr v)"
| "subscript _ k = Inl TypeError"

text \<open>\<^verbatim>\<open>d.get(k, default)\<close>: only a dict has the method.\<close>

fun dict_get :: "json \<Rightarrow> string \<Rightarrow> json \<Rightarrow> exn + json" where
  "dict_get (JObj kvs) k dflt = Inr (case map_of kvs k of None \<Rightarrow> dflt | Some v \<Rightarrow> v)"
| "dict_get _ k dflt = Inl AttributeError"

text \<open>
  \<^verbatim>\<open>for x in v\<close>: a list yields its elements, a dict its keys, a string its characters;
  nothing else is iterable.
\<close>

fun py_iter :: "json \<Rightarrow> exn + json list" where
  "py_iter (JArr xs) = Inr xs"
| "py_iter (JObj kvs) = Inr (map (\<lambda>kv. JStr (fst kv)) kvs)"
| "py_iter (JStr s) = Inr (map (\<lambda>c. JStr [c]) s)"
| "py_iter _ = Inl TypeError"

text \<open>A comprehension or an appending loop whose body may raise stops at the first exception.\<close>

fun map_raise :: "('a \<Rightarrow> exn + 'b) \<Rightarrow> 'a list \<Rightarrow> exn + 'b list" where
  "map_raise f [] = Inr []"
| "map_raise f (x # xs) = bnd (f x) (\<lambda>y. bnd (map_raise f xs) (\<lambda>ys. Inr (y # ys)))"

section \<open>Backend calls\<close>

datatype service = auth | catalog | order | payment

fun SERVICE_URLS :: "service \<Rightarrow> string" where
  "SERVICE_URLS auth = ''http://auth-service:5000''"
| "SERVICE_URLS catalog = ''http://catalog-service:5000''"
| "SERVICE_URLS order = ''http://order-service:5000''"
| "SERVICE_URLS payment = ''http://payment-service:5000''"

datatype http_method = GET | POST

text \<open>An f-string is kept as its literal pieces and the values interpolated between them.\<close>

datatype fpart = Lit string | Interp json

record request =
  req_service :: service
  req_method :: http_method
  req_url :: "fpart list"
  req_params :: "(string \<times> json) list"
  req_json :: "json option"
  req_timeout :: real

text \<open>
  What an awaited \<^verbatim>\<open>client.get\<close> or \<^verbatim>\<open>client.post\<close> gives: an exception of httpx
  (connection refused, timeout), or a response with its status code and its body, where the
  body is \<open>None\<close> when \<^verbatim>\<open>response.json()\<close> would raise on it.
\<close>

datatype http_result = Unavailable | Response int "json option"

type_synonym backend = "request \<Rightarrow> http_result"

text \<open>A resolver either returns a value to the execution engine or raises into it.\<close>

datatype 'a outcome = Returned 'a | Raised exn

section \<open>The gateway's entities (graphql-gateway/app.py)\<close>

record Product =
  Product_id :: json
  Product_name :: json
  Product_description :: json
  Product_price :: json
  Product_category :: json
  Product_stock :: json
  Product_image_url :: json
  Product_created_at :: json
  Product_updated_at :: json

record OrderItem =
  OrderItem_product_id :: json
  OrderItem_quantity :: json
  OrderItem_price :: json
  OrderItem_name :: json

record Order =
  Order_id :: json
  Order_user_id :: json
  Order_items :: "OrderItem list"
  Order_total_amount :: json
  Order_status :: json
  Order_payment_status :: json
  Order_shipping_address :: json
  Order_payment_method :: json
  Order_tracking_number :: json
  Order_notes :: json
  Order_created_at :: json
  Order_updated_at :: json

record User =
  User_id :: string
  User_username :: string
  User_email :: string
  User_full_name :: "string option"
  User_created_at :: string
  User_updated_at :: string

subsection \<open>Query.user\<close>

text \<open>
  The two \<^verbatim>\<open>datetime.utcnow().isoformat()\<close> readings are parameters. The body of the
  \<^verbatim>\<open>try\<close> builds the entity from its argument alone and uses the HTTP client for nothing.
\<close>

definition Query_user :: "string \<Rightarrow> string \<Rightarrow> string \<Rightarrow> User option outcome \<times> request list" where
  "Query_user now1 now2 ident =
     (Returned (Some \<lparr> User_id = ident,
                       User_username = ''user_'' @ ident,
                       User_email = ''user'' @ ident @ ''@example.com'',
                       User_full_name = Some ''Test User'',
                       User_created_at = now1,
                       User_updated_at = now2 \<rparr>), [])"

subsection \<open>The Product adapter\<close>

text \<open>
  The keyword arguments of \<^verbatim>\<open>Product(...)\<close>, evaluated in the order they are written
  (app.py lines 49-59, again at 168-178 and 215-225). Subscripts raise on a missing key,
  \<^verbatim>\<open>get\<close> gives None, and \<^verbatim>\<open>data.get("stock", 0)\<close> gives the integer 0.
\<close>

definition Product_of :: "json \<Rightarrow> exn + Product" where
  "Product_of data =
     bnd (subscript data ''id'') (\<lambda>v_id.
     bnd (subscript data ''name'') (\<lambda>v_name.
     bnd (dict_get data ''description'' JNull) (\<lambda>v_description.
     bnd (subscript data ''price'') (\<lambda>v_price.
     bnd (subscript data ''category'') (\<lambda>v_category.
     bnd (dict_get data ''stock'' (JInt 0)) (\<lambda>v_stock.
     bnd (dict_get data ''image_url'' JNull) (\<lambda>v_image_url.
     bnd (subscript data ''created_at'') (\<lambda>v_created_at.
     bnd (subscript data ''updated_at'') (\<lambda>v_updated_at.
     Inr \<lparr> Product_id = v_id,
           Product_name = v_name,
           Product_description = v_description,
           Product_price = v_price,
           Product_category = v_category,
           Product_stock = v_stock,
           Product_image_url = v_image_url,
           Product_created_at = v_created_at,
           Product_updated_at = v_updated_at \<rparr>)))))))))"

subsection \<open>OrderItem.product and Query.product\<close>

text \<open>
  The body of the \<^verbatim>\<open>try\<close> once the call has come back: \<open>Inl\<close> is an exception raised
  inside it, \<open>Inr (Some p)\<close> the \<^verbatim>\<open>return Product(...)\<close>, and \<open>Inr None\<close> the case
  where the status is not 200 and control leaves the \<^verbatim>\<open>if\<close> without returning.
\<close>

definition product_try :: "http_result \<Rightarrow> exn + Product option" where
  "product_try r =
     (case r of
        Unavailable \<Rightarrow> Inl TransportError
      | Response status_code body \<Rightarrow>
          if status_code = 200 then
            (case body of
               None \<Rightarrow> Inl JSONDecodeError
             | Some data \<Rightarrow> bnd (Product_of data) (\<lambda>p. Inr (Some p)))
          else Inr None)"

text \<open>
  \<^verbatim>\<open>except Exception: pass\<close> and the final \<^verbatim>\<open>return None\<close>: an exception and a
  fall-through both end in None, and the resolver returns normally.
\<close>

definition product_request :: "json \<Rightarrow> request" where
  "product_request ident =
     \<lparr> req_service = catalog,
       req_method = GET,
       req_url = [Lit (SERVICE_URLS catalog @ ''/api/v1/catalog/items/''), Interp ident],
       req_params = [],
       req_json = None,
       req_timeout = 5 \<rparr>"

definition OrderItem_product :: "backend \<Rightarrow> OrderItem \<Rightarrow> Product option outcome \<times> request list" where
  "OrderItem_product be self =
     (let rq = product_request (OrderItem_product_id self) in
      (case product_try (be rq) of
         Inl e \<Rightarrow> Returned None
       | Inr r \<Rightarrow> Returned r,
       [rq]))"

definition Query_product :: "backend \<Rightarrow> string \<Rightarrow> Product option outcome \<times> request list" where
  "Query_product be ident =
     (let rq = product_request (JStr ident) in
      (case product_try (be rq) of
         Inl e \<Rightarrow> Returned None
       | Inr r \<Rightarrow> Returned r,
       [rq]))"

subsection \<open>Query.products\<close>





subsection \<open>The Order adapter\<close>

definition OrderItem_of :: "json \<Rightarrow> exn + OrderItem" where
  "OrderItem_of item =
     bnd (subscript item ''product_id'') (\<lambda>v_product_id.
     bnd (subscript item ''quantity'') (\<lambda>v_quantity.
     bnd (subscript item ''price'') (\<lambda>v_price.
     bnd (subscript item ''name'') (\<lambda>v_name.
     Inr \<lparr> OrderItem_product_id = v_product_id,
           OrderItem_quantity = v_quantity,
           OrderItem_price = v_price,
           OrderItem_name = v_name \<rparr>))))"

text \<open>
  The items are built first, then the keyword arguments of \<^verbatim>\<open>Order(...)\<close> in their
  order. The same construction is written out in User.orders (lines 108-131),
  Query.user_orders (249-274), Query.order (298-322) and Mutation.create_order (357-381).
\<close>

definition Order_of :: "json \<Rightarrow> exn + Order" where
  "Order_of order_data =
     bnd (subscript order_data ''items'') (\<lambda>its.
     bnd (py_iter its) (\<lambda>xs.
     bnd (map_raise OrderItem_of xs) (\<lambda>order_items.
     bnd (subscript order_data ''id'') (\<lambda>v_id.
     bnd (subscript order_data ''user_id'') (\<lambda>v_user_id.
     bnd (subscript order_data ''total_amount'') (\<lambda>v_total_amount.
     bnd (subscript order_data ''status'') (\<lambda>v_status.
     bnd (subscript order_data ''payment_status'') (\<lambda>v_payment_status.
     bnd (subscript order_data ''shipping_address'') (\<lambda>v_shipping_address.
     bnd (subscript order_data ''payment_method'') (\<lambda>v_payment_method.
     bnd (dict_get order_data ''tracking_number'' JNull) (\<lambda>v_tracking_number.
     bnd (dict_get order_data ''notes'' JNull) (\<lambda>v_notes.
     bnd (subscript order_data ''created_at'') (\<lambda>v_created_at.
     bnd (subscript order_data ''updated_at'') (\<lambda>v_updated_at.
     Inr \<lparr> Order_id = v_id,
           Order_user_id = v_user_id,
           Order_items = order_items,
           Order_total_amount = v_total_amount,
           Order_status = v_status,
           Order_payment_status = v_payment_status,
           Order_shipping_address = v_shipping_address,
           Order_payment_method = v_payment_method,
           Order_tracking_number = v_tracking_number,
           Order_notes = v_notes,
           Order_created_at = v_created_at,
           Order_updated_at = v_updated_at \<rparr>))))))))))))))"

subsection \<open>User.orders and Query.user_orders\<close>





subsection \<open>Query.order\<close>

definition order_request :: "string \<Rightarrow> request" where
  "order_request ident =
     \<lparr> req_service = order,
       req_method = GET,
       req_url = [Lit (SERVICE_URLS order @ ''/api/v1/orders/''), Interp (JStr ident)],
       req_params = [],
       req_json = None,
       req_timeout = 5 \<rparr>"

definition order_try :: "int \<Rightarrow> http_result \<Rightarrow> exn + Order option" where
  "order_try expected r =
     (case r of
        Unavailable \<Rightarrow> Inl TransportError
      | Response status_code body \<Rightarrow>
          if status_code = expected then
            (case body of
               None \<Rightarrow> Inl JSONDecodeError
             | Some order_data \<Rightarrow> bnd (Order_of order_data) (\<lambda>ord. Inr (Some ord)))
          else Inr None)"

definition Query_order :: "backend \<Rightarrow> string \<Rightarrow> Order option outcome \<times> request list" where
  "Query_order be ident =
     (let rq = order_request ident in
      (case order_try 200 (be rq) of
         Inl e \<Rightarrow> Returned None
       | Inr r \<Rightarrow> Returned r,
       [rq]))"

subsection \<open>Mutation.create_order\<close>

text \<open>
  The mutation has three arguments: the user id, the items and the shipping address. The
  payment method of the forwarded body is the literal \<^verbatim>\<open>"card"\<close>. The body is posted
  once, with no check of the items before it, and the answer is read as in Query.order
  with 201 for 200.
\<close>

definition create_order_body :: "string \<Rightarrow> json list \<Rightarrow> json \<Rightarrow> json" where
  "create_order_body user_id items shipping_address =
     JObj [(''user_id'', JStr user_id),
           (''items'', JArr items),
           (''shipping_address'', shipping_address),
           (''payment_method'', JStr ''card'')]"

definition create_order_request :: "string \<Rightarrow> json list \<Rightarrow> json \<Rightarrow> request" where
  "create_order_request user_id items shipping_address =
     \<lparr> req_service = order,
       req_method = POST,
       req_url = [Lit (SERVICE_URLS order @ ''/api/v1/orders'')],
       req_params = [],
       req_json = Some (create_order_body user_id items shipping_address),
       req_timeout = 10 \<rparr>"

definition Mutation_create_order ::
  "backend \<Rightarrow> string \<Rightarrow> json list \<Rightarrow> json \<Rightarrow> Order option outcome \<times> request list" where
  "Mutation_create_order be user_id items shipping_address =
     (let rq = create_order_request user_id items shipping_address in
      (case order_try 201 (be rq) of
         Inl e \<Rightarrow> Returned None
       | Inr r \<Rightarrow> Returned r,
       [rq]))"

section \<open>The execution engine\<close>

text \<open>
  Modelled from the spec: the graph execution engine is the strawberry library, which is
  not part of the repository's sources. Section 4.4 of the specification says what it
  does: it walks the requested field tree, invokes a resolver only for a requested field,
  and for each node produces a value, a null, or an error entry keyed by the field's path.
  A resolver that returns gives its value and no entry; one that raises gives null and
  one entry. Fields are named by their Python attribute. The derived field
  \<^verbatim>\<open>Order.address\<close>, which calls no backend, is left out of the walk.
\<close>

datatype pelem = PField string | PIndex nat

record error_entry =
  err_path :: "pelem list"
  err_message :: exn

datatype selection = Sel string "selection list"

record gql_response =
  resp_data :: json
  resp_errors :: "error_entry list"

text \<open>
  Modelled from the spec: what the engine makes of a resolver's outcome at a path
  (section 4.4: a value, or a null with one error entry keyed by the path).
\<close>

definition complete_field :: "pelem list \<Rightarrow> 'a outcome \<Rightarrow> 'a option \<times> error_entry list" where
  "complete_field pth out =
     (case out of
        Returned v \<Rightarrow> (Some v, [])
      | Raised e \<Rightarrow> (None, [\<lparr> err_path = pth, err_message = e \<rparr>]))"

definition attr_value :: "(string \<times> json) list \<Rightarrow> string \<Rightarrow> json" where
  "attr_value attrs n = (case map_of attrs n of None \<Rightarrow> JNull | Some v \<Rightarrow> v)"

definition Product_attrs :: "Product \<Rightarrow> (string \<times> json) list" where
  "Product_attrs p =
     [(''id'', Product_id p), (''name'', Product_name p),
      (''description'', Product_description p), (''price'', Product_price p),
      (''category'', Product_category p), (''stock'', Product_stock p),
      (''image_url'', Product_image_url p), (''created_at'', Product_created_at p),
      (''updated_at'', Product_updated_at p)]"

definition OrderItem_attrs :: "OrderItem \<Rightarrow> (string \<times> json) list" where
  "OrderItem_attrs it =
     [(''product_id'', OrderItem_product_id it), (''quantity'', OrderItem_quantity it),
      (''price'', OrderItem_price it), (''name'', OrderItem_name it)]"

definition Order_attrs :: "Order \<Rightarrow> (string \<times> json) list" where
  "Order_attrs ord =
     [(''id'', Order_id ord), (''user_id'', Order_user_id ord),
      (''total_amount'', Order_total_amount ord), (''status'', Order_status ord),
      (''payment_status'', Order_payment_status ord),
      (''payment_method'', Order_payment_method ord),
      (''tracking_number'', Order_tracking_number ord), (''notes'', Order_notes ord),
      (''created_at'', Order_created_at ord), (''updated_at'', Order_updated_at ord)]"

fun sel_name :: "selection \<Rightarrow> string" where
  "sel_name (Sel n subs) = n"

fun sel_subs :: "selection \<Rightarrow> selection list" where
  "sel_subs (Sel n subs) = subs"

definition exec_Product :: "Product \<Rightarrow> selection list \<Rightarrow> json" where
  "exec_Product p sels = JObj (map (\<lambda>s. (sel_name s, attr_value (Product_attrs p) (sel_name s))) sels)"

definition product_value :: "Product option option \<Rightarrow> selection list \<Rightarrow> json" where
  "product_value v subs =
     (case v of
        Some (Some p) \<Rightarrow> exec_Product p subs
      | _ \<Rightarrow> JNull)"

text \<open>
  Modelled from the spec: the walk over the selection of an order item, of the items of an
  order and of an order. A requested field that has a resolver in app.py
  (\<^verbatim>\<open>OrderItem.product\<close>) invokes it; any other requested field reads the attribute;
  a field that is not requested is not visited.
\<close>

fun exec_OrderItem ::
  "backend \<Rightarrow> pelem list \<Rightarrow> OrderItem \<Rightarrow> selection list
     \<Rightarrow> (string \<times> json) list \<times> error_entry list \<times> request list" where
  "exec_OrderItem be pth it [] = ([], [], [])"
| "exec_OrderItem be pth it (s # rest) =
     (case exec_OrderItem be pth it rest of (fs, es, cs) \<Rightarrow>
        if sel_name s = ''product'' then
          (case OrderItem_product be it of (out, cs0) \<Rightarrow>
             (case complete_field (pth @ [PField ''product'']) out of (v, es0) \<Rightarrow>
                ((sel_name s, product_value v (sel_subs s)) # fs, es0 @ es, cs0 @ cs)))
        else ((sel_name s, attr_value (OrderItem_attrs it) (sel_name s)) # fs, es, cs))"

fun exec_items ::
  "backend \<Rightarrow> pelem list \<Rightarrow> selection list \<Rightarrow> nat \<Rightarrow> OrderItem list
     \<Rightarrow> json list \<times> error_entry list \<times> request list" where
  "exec_items be pth subs i [] = ([], [], [])"
| "exec_items be pth subs i (it # its) =
     (case exec_OrderItem be (pth @ [PIndex i]) it subs of (fs, es, cs) \<Rightarrow>
        (case exec_items be pth subs (Suc i) its of (vs, es', cs') \<Rightarrow>
           (JObj fs # vs, es @ es', cs @ cs')))"

fun exec_Order ::
  "backend \<Rightarrow> pelem list \<Rightarrow> Order \<Rightarrow> selection list
     \<Rightarrow> (string \<times> json) list \<times> error_entry list \<times> request list" where
  "exec_Order be pth ord [] = ([], [], [])"
| "exec_Order be pth ord (s # rest) =
     (case exec_Order be pth ord rest of (fs, es, cs) \<Rightarrow>
        if sel_name s = ''items'' then
          (case exec_items be (pth @ [PField ''items'']) (sel_subs s) 0 (Order_items ord) of
             (vs, es0, cs0) \<Rightarrow> ((sel_name s, JArr vs) # fs, es0 @ es, cs0 @ cs))
        else ((sel_name s, attr_value (Order_attrs ord) (sel_name s)) # fs, es, cs))"

text \<open>The root fields \<^verbatim>\<open>product\<close>, \<^verbatim>\<open>order\<close> and \<^verbatim>\<open>create_order\<close>.\<close>

definition exec_query_product :: "backend \<Rightarrow> string \<Rightarrow> selection list \<Rightarrow> gql_response \<times> request list" where
  "exec_query_product be ident sels =
     (case Query_product be ident of (out, cs) \<Rightarrow>
        (case complete_field [PField ''product''] out of (v, es) \<Rightarrow>
           (\<lparr> resp_data = JObj [(''product'', product_value v sels)], resp_errors = es \<rparr>, cs)))"

definition order_root ::
  "backend \<Rightarrow> string \<Rightarrow> Order option outcome \<times> request list \<Rightarrow> selection list
     \<Rightarrow> gql_response \<times> request list" where
  "order_root be fname res sels =
     (case res of (out, cs) \<Rightarrow>
        (case complete_field [PField fname] out of
           (Some (Some ord), es) \<Rightarrow>
             (case exec_Order be [PField fname] ord sels of (fs, es', cs') \<Rightarrow>
                (\<lparr> resp_data = JObj [(fname, JObj fs)], resp_errors = es @ es' \<rparr>, cs @ cs'))
         | (_, es) \<Rightarrow> (\<lparr> resp_data = JObj [(fname, JNull)], resp_errors = es \<rparr>, cs)))"

definition exec_query_order :: "backend \<Rightarrow> string \<Rightarrow> selection list \<Rightarrow> gql_response \<times> request list" where
  "exec_query_order be ident sels = order_root be ''order'' (Query_order be ident) sels"

definition exec_mutation_create_order ::
  "backend \<Rightarrow> string \<Rightarrow> json list \<Rightarrow> json \<Rightarrow> selection list \<Rightarrow> gql_response \<times> request list" where
  "exec_mutation_create_order be user_id items shipping_address sels =
     order_root be ''create_order'' (Mutation_create_order be user_id items shipping_address) sels"

text \<open>Whether a selection on an order asks for the product of its items.\<close>

definition requests_product :: "selection list \<Rightarrow> bool" where
  "requests_product sels =
     list_ex (\<lambda>s. sel_name s = ''items'' \<and> list_ex (\<lambda>t. sel_name t = ''product'') (sel_subs s)) sels"

section \<open>The order service (order-service/app.py, order-service/models.py)\<close>

datatype OrderStatus = PENDING | PROCESSING | SHIPPED | DELIVERED | CANCELLED | REFUNDED

fun OrderStatus_value :: "OrderStatus \<Rightarrow> string" where
  "OrderStatus_value PENDING = ''pending''"
| "OrderStatus_value PROCESSING = ''processing''"
| "OrderStatus_value SHIPPED = ''shipped''"
| "OrderStatus_value DELIVERED = ''delivered''"
| "OrderStatus_value CANCELLED = ''cancelled''"
| "OrderStatus_value REFUNDED = ''refunded''"

datatype PaymentStatus = PAY_PENDING | PAY_PAID | PAY_FAILED | PAY_REFUNDED

fun PaymentStatus_value :: "PaymentStatus \<Rightarrow> string" where
  "PaymentStatus_value PAY_PENDING = ''pending''"
| "PaymentStatus_value PAY_PAID = ''paid''"
| "PaymentStatus_value PAY_FAILED = ''failed''"
| "PaymentStatus_value PAY_REFUNDED = ''refunded''"

text \<open>
  The request models of models.py, with the declared types of their fields. The
  constraints of the \<^verbatim>\<open>Field\<close> declarations (\<^verbatim>\<open>min_items=1\<close>, \<^verbatim>\<open>gt=0\<close>) are checked by
  \<open>OrderCreate_valid\<close>; FastAPI answers 422 and does not call the endpoint's function
  when they fail.
\<close>

record item_model =
  item_product_id :: string
  item_quantity :: int
  item_price :: real
  item_name :: string

record OrderCreate =
  oc_user_id :: string
  oc_items :: "item_model list"
  oc_shipping_address :: "(string \<times> json) list"
  oc_payment_method :: string

definition item_valid :: "item_model \<Rightarrow> bool" where
  "item_valid item = (item_quantity item > 0 \<and> item_price item > 0)"

definition OrderCreate_valid :: "OrderCreate \<Rightarrow> bool" where
  "OrderCreate_valid order_data =
     (length (oc_items order_data) \<ge> 1 \<and> list_all item_valid (oc_items order_data))"

text \<open>\<^verbatim>\<open>sum(...)\<close> starts from 0 and adds the products from left to right.\<close>

definition calculate_total :: "item_model list \<Rightarrow> real" where
  "calculate_total items =
     foldl (+) 0 (map (\<lambda>item. item_price item * real_of_int (item_quantity item)) items)"

record order_row =
  row_id :: string
  row_user_id :: string
  row_items :: "item_model list"
  row_total_amount :: real
  row_status :: string
  row_payment_status :: string
  row_shipping_address :: "(string \<times> json) list"
  row_payment_method :: string
  row_tracking_number :: "string option"
  row_notes :: "string option"
  row_created_at :: string
  row_updated_at :: string

type_synonym orders_db = "string \<rightharpoonup> order_row"

text \<open>
  The generated order id and the current time are parameters. The function stores the
  new order under its id and returns it.
\<close>

definition create_order :: "string \<Rightarrow> string \<Rightarrow> OrderCreate \<Rightarrow> orders_db \<Rightarrow> order_row \<times> orders_db" where
  "create_order order_id current_time order_data db =
     (let items_dict = oc_items order_data;
          total_amount = calculate_total items_dict;
          new_order =
            \<lparr> row_id = order_id,
              row_user_id = oc_user_id order_data,
              row_items = items_dict,
              row_total_amount = total_amount,
              row_status = OrderStatus_value PENDING,
              row_payment_status = PaymentStatus_value PAY_PENDING,
              row_shipping_address = oc_shipping_address order_data,
              row_payment_method = oc_payment_method order_data,
              row_tracking_number = None,
              row_notes = None,
              row_created_at = current_time,
              row_updated_at = current_time \<rparr>
      in (new_order, db(order_id \<mapsto> new_order)))"

text \<open>The route \<^verbatim>\<open>POST /api/v1/orders\<close>: validation, then the function, with status 201.\<close>

definition post_orders ::
  "string \<Rightarrow> string \<Rightarrow> OrderCreate \<Rightarrow> orders_db \<Rightarrow> (int \<times> order_row option) \<times> orders_db" where
  "post_orders order_id current_time order_data db =
     (if OrderCreate_valid order_data then
        (case create_order order_id current_time order_data db of
           (new_order, db') \<Rightarrow> ((201, Some new_order), db'))
      else ((422, None), db))"

section \<open>Failure conditions and concrete inputs\<close>

text \<open>A read has failed when the call raised or the status is not 200.\<close>

definition lookup_failed :: "http_result \<Rightarrow> bool" where
  "lookup_failed r = (case r of Unavailable \<Rightarrow> True | Response status_code body \<Rightarrow> status_code \<noteq> 200)"

definition backend_down :: backend where
  "backend_down rq = Unavailable"

definition backend_answer :: "int \<Rightarrow> json option \<Rightarrow> backend" where
  "backend_answer status_code body rq = Response status_code body"

text \<open>
  What an item's fields resolve to when its catalog lookup fails: the product is null and
  every other requested field keeps the item's attribute.
\<close>

definition failed_item_fields :: "OrderItem \<Rightarrow> selection list \<Rightarrow> (string \<times> json) list" where
  "failed_item_fields it sels =
     map (\<lambda>s. (sel_name s, if sel_name s = ''product'' then JNull
                             else attr_value (OrderItem_attrs it) (sel_name s))) sels"

definition item_p1 :: OrderItem where
  "item_p1 = \<lparr> OrderItem_product_id = JStr ''p1'', OrderItem_quantity = JInt 2,
               OrderItem_price = JFloat 5, OrderItem_name = JStr ''Pen'' \<rparr>"

definition not_found :: "json option" where
  "not_found = Some (JObj [(''detail'', JStr ''Item not found'')])"

text \<open>
  How many catalog lookups a selection on an order asks for: one for each \<open>product\<close>
  field under each \<open>items\<close> field, for each of the order's \<open>n\<close> items.
\<close>

definition product_fields :: "selection list \<Rightarrow> nat" where
  "product_fields subs = length (filter (\<lambda>t. sel_name t = ''product'') subs)"

definition nested_lookups :: "selection list \<Rightarrow> nat \<Rightarrow> nat" where
  "nested_lookups sels n =
     sum_list (map (\<lambda>s. if sel_name s = ''items'' then n * product_fields (sel_subs s) else 0) sels)"

text \<open>An order as the order service returns it.\<close>

definition order_payload :: json where
  "order_payload =
     JObj [(''id'', JStr ''ORD-1''), (''user_id'', JStr ''u1''),
           (''items'', JArr [JObj [(''product_id'', JStr ''p1''), (''quantity'', JInt 2),
                                   (''price'', JFloat 5), (''name'', JStr ''Pen'')],
                             JObj [(''product_id'', JStr ''p2''), (''quantity'', JInt 1),
                                   (''price'', JFloat 3), (''name'', JStr ''Ink'')]]),
           (''total_amount'', JFloat 13), (''status'', JStr ''pending''),
           (''payment_status'', JStr ''pending''),
           (''shipping_address'', JObj [(''city'', JStr ''Oslo'')]),
           (''payment_method'', JStr ''card''), (''tracking_number'', JNull),
           (''notes'', JNull), (''created_at'', JStr ''t0''), (''updated_at'', JStr ''t0'')]"

text \<open>A write has failed when the call raised or the status is not 201.\<close>

definition write_failed :: "http_result \<Rightarrow> bool" where
  "write_failed r = (case r of Unavailable \<Rightarrow> True | Response status_code body \<Rightarrow> status_code \<noteq> 201)"

text \<open>
  The body of the write call as section 4.5 of the specification words it, with the payment
  method tag an input of the mutation; for comparison with \<open>create_order_body\<close>.
\<close>

definition spec_forwarded_body :: "string \<Rightarrow> json list \<Rightarrow> json \<Rightarrow> string \<Rightarrow> json" where
  "spec_forwarded_body user_id items shipping_address payment_method =
     JObj [(''user_id'', JStr user_id),
           (''items'', JArr items),
           (''shipping_address'', shipping_address),
           (''payment_method'', JStr payment_method)]"

text \<open>Concrete inputs of the mutation and of the order service.\<close>

definition address1 :: json where
  "address1 = JObj [(''street'', JStr ''Main 1''), (''city'', JStr ''Oslo''), (''country'', JStr ''NO'')]"

definition item_json1 :: json where
  "item_json1 = JObj [(''product_id'', JStr ''p1''), (''quantity'', JInt 2),
                      (''price'', JFloat 5), (''name'', JStr ''Pen'')]"

definition validation_error :: "json option" where
  "validation_error = Some (JObj [(''detail'', JArr [])])"

definition empty_order :: OrderCreate where
  "empty_order = \<lparr> oc_user_id = ''u1'', oc_items = [],
                    oc_shipping_address = [(''city'', JStr ''Oslo'')],
                    oc_payment_method = ''card'' \<rparr>"
















section \<open>Properties\<close>

text \<open>
  C9: for every id, \<open>Query.user\<close> issues no backend call and returns a user (never null,
  never an exception) whose username is \<open>user_\<close> followed by the id and whose email is
  \<open>user\<close>, the id and \<open>@example.com\<close>.
\<close>

theorem C9_query_user_stub:
  "snd (Query_user now1 now2 ident) = []
   \<and> (\<exists>u. fst (Query_user now1 now2 ident) = Returned (Some u)
          \<and> User_id u = ident
          \<and> User_username u = ''user_'' @ ident
          \<and> User_email u = ''user'' @ ident @ ''@example.com'')"
  by (simp add: Query_user_def)

subsection \<open>Resolvers return; the walk records no error\<close>

lemma product_try_failed: "lookup_failed r \<Longrightarrow> product_try r = Inl TransportError \<or> product_try r = Inr None"
  by (cases r) (auto simp: lookup_failed_def product_try_def)

lemma OrderItem_product_returns: "\<exists>v. OrderItem_product be it = (Returned v, [product_request (OrderItem_product_id it)])"
  by (simp add: OrderItem_product_def Let_def split: sum.splits)

lemma OrderItem_product_failed:
  "lookup_failed (be (product_request (OrderItem_product_id it))) \<Longrightarrow>
   OrderItem_product be it = (Returned None, [product_request (OrderItem_product_id it)])"
  using product_try_failed[of "be (product_request (OrderItem_product_id it))"]
  by (auto simp: OrderItem_product_def Let_def)

lemma Query_product_failed:
  "lookup_failed (be (product_request (JStr ident))) \<Longrightarrow>
   Query_product be ident = (Returned None, [product_request (JStr ident)])"
  using product_try_failed[of "be (product_request (JStr ident))"]
  by (auto simp: Query_product_def Let_def)

lemma exec_OrderItem_errors: "fst (snd (exec_OrderItem be pth it sels)) = []"
proof (induction sels)
  case Nil
  show ?case by simp
next
  case (Cons s rest)
  obtain v where v: "OrderItem_product be it = (Returned v, [product_request (OrderItem_product_id it)])"
    using OrderItem_product_returns by blast
  obtain fs es cs where r: "exec_OrderItem be pth it rest = (fs, es, cs)"
    by (cases "exec_OrderItem be pth it rest") auto
  from Cons r have "es = []" by simp
  with r show ?case
    by (simp add: v complete_field_def)
qed

lemma exec_items_errors: "fst (snd (exec_items be pth subs i its)) = []"
proof (induction its arbitrary: i)
  case Nil
  show ?case by simp
next
  case (Cons it its)
  obtain fs es cs where a: "exec_OrderItem be (pth @ [PIndex i]) it subs = (fs, es, cs)"
    by (cases "exec_OrderItem be (pth @ [PIndex i]) it subs") auto
  obtain vs es' cs' where b: "exec_items be pth subs (Suc i) its = (vs, es', cs')"
    by (cases "exec_items be pth subs (Suc i) its") auto
  have "es = []"
    using exec_OrderItem_errors[of be "pth @ [PIndex i]" it subs] a by simp
  moreover have "es' = []"
    using Cons.IH[of "Suc i"] b by simp
  ultimately show ?case
    by (simp add: a b)
qed

lemma exec_Order_errors: "fst (snd (exec_Order be pth ord sels)) = []"
proof (induction sels)
  case Nil
  show ?case by simp
next
  case (Cons s rest)
  obtain fs es cs where r: "exec_Order be pth ord rest = (fs, es, cs)"
    by (cases "exec_Order be pth ord rest") auto
  obtain vs es0 cs0 where a:
    "exec_items be (pth @ [PField ''items'']) (sel_subs s) 0 (Order_items ord) = (vs, es0, cs0)"
    by (cases "exec_items be (pth @ [PField ''items'']) (sel_subs s) 0 (Order_items ord)") auto
  have "es0 = []"
    using exec_items_errors[of be "pth @ [PField ''items'']" "sel_subs s" 0 "Order_items ord"] a
    by simp
  moreover from Cons r have "es = []" by simp
  ultimately show ?case
    by (simp add: r a)
qed

lemma Query_order_returns: "\<exists>v. Query_order be ident = (Returned v, [order_request ident])"
  by (simp add: Query_order_def Let_def split: sum.splits)

lemma order_root_errors:
  "resp_errors (fst (order_root be fname (Returned v, cs) sels)) = []"
proof (cases v)
  case None
  then show ?thesis by (simp add: order_root_def complete_field_def)
next
  case (Some ord)
  obtain fs es cs' where r: "exec_Order be [PField fname] ord sels = (fs, es, cs')"
    by (cases "exec_Order be [PField fname] ord sels") auto
  have "es = []"
    using exec_Order_errors[of be "[PField fname]" ord sels] r by simp
  with Some r show ?thesis by (simp add: order_root_def complete_field_def)
qed

lemma exec_query_order_errors: "resp_errors (fst (exec_query_order be ident sels)) = []"
proof -
  obtain v where "Query_order be ident = (Returned v, [order_request ident])"
    using Query_order_returns by blast
  then show ?thesis
    by (simp add: exec_query_order_def order_root_errors)
qed

lemma exec_OrderItem_failed:
  assumes "lookup_failed (be (product_request (OrderItem_product_id it)))"
  shows "fst (exec_OrderItem be pth it sels) = failed_item_fields it sels"
proof (induction sels)
  case Nil
  show ?case by (simp add: failed_item_fields_def)
next
  case (Cons s rest)
  have f: "OrderItem_product be it = (Returned None, [product_request (OrderItem_product_id it)])"
    using assms by (rule OrderItem_product_failed)
  obtain fs es cs where r: "exec_OrderItem be pth it rest = (fs, es, cs)"
    by (cases "exec_OrderItem be pth it rest") auto
  from Cons r show ?case
    by (simp add: f complete_field_def product_value_def failed_item_fields_def)
qed

subsection \<open>Failed catalog lookups\<close>

text \<open>
  C1 (as amended): whenever the catalog lookup for a product fails (the call raises or the
  status is not 200), the top-level \<open>product\<close> field resolves to null after exactly one
  catalog call and the response's error list stays empty; inside an order item the
  \<open>product\<close> field is null while the sibling fields keep the item's attributes, with no
  error entry; and a query for an order never carries an error entry, whatever the backend
  answers for the nested lookups.
\<close>

theorem C1_failed_lookup_null_without_error:
  "(lookup_failed (be (product_request (JStr ident))) \<longrightarrow>
      exec_query_product be ident sels =
        (\<lparr> resp_data = JObj [(''product'', JNull)], resp_errors = [] \<rparr>,
         [product_request (JStr ident)]))
   \<and> (lookup_failed (be (product_request (OrderItem_product_id it))) \<longrightarrow>
        fst (exec_OrderItem be pth it subs) = failed_item_fields it subs
        \<and> fst (snd (exec_OrderItem be pth it subs)) = [])
   \<and> resp_errors (fst (exec_query_order be ident sels)) = []"
proof (intro conjI impI)
  assume "lookup_failed (be (product_request (JStr ident)))"
  then show "exec_query_product be ident sels =
        (\<lparr> resp_data = JObj [(''product'', JNull)], resp_errors = [] \<rparr>,
         [product_request (JStr ident)])"
    by (simp add: exec_query_product_def Query_product_failed complete_field_def product_value_def)
next
  assume "lookup_failed (be (product_request (OrderItem_product_id it)))"
  then show "fst (exec_OrderItem be pth it subs) = failed_item_fields it subs"
    by (rule exec_OrderItem_failed)
next
  show "fst (snd (exec_OrderItem be pth it subs)) = []"
    by (rule exec_OrderItem_errors)
next
  show "resp_errors (fst (exec_query_order be ident sels)) = []"
    by (rule exec_query_order_errors)
qed

theorem C1_witness:
  "lookup_failed (backend_answer 404 not_found (product_request (JStr ''p1'')))
   \<and> exec_query_product (backend_answer 404 not_found) ''p1'' [Sel ''name'' []] =
        (\<lparr> resp_data = JObj [(''product'', JNull)], resp_errors = [] \<rparr>,
         [product_request (JStr ''p1'')])
   \<and> lookup_failed (backend_answer 404 not_found (product_request (OrderItem_product_id item_p1)))
   \<and> fst (exec_OrderItem (backend_answer 404 not_found) [] item_p1
           [Sel ''name'' [], Sel ''product'' [Sel ''id'' []], Sel ''quantity'' []])
       = [(''name'', JStr ''Pen''), (''product'', JNull), (''quantity'', JInt 2)]"
  using C1_failed_lookup_null_without_error
    [where be = "backend_answer 404 not_found" and ident = "''p1''" and sels = "[Sel ''name'' []]"
       and it = item_p1 and pth = "[]"
       and subs = "[Sel ''name'' [], Sel ''product'' [Sel ''id'' []], Sel ''quantity'' []]"]
  by (simp add: lookup_failed_def backend_answer_def failed_item_fields_def
      item_p1_def attr_value_def OrderItem_attrs_def)

text \<open>
  C1 as stated fails: with the catalog answering 404 for \<open>p1\<close>, the response is
  \<open>{"data": {"product": null}}\<close> with an empty error list, not a list of one entry.
\<close>

theorem C1_counterexample:
  "fst (exec_query_product (backend_answer 404 not_found) ''p1'' [Sel ''name'' []]) =
     \<lparr> resp_data = JObj [(''product'', JNull)], resp_errors = [] \<rparr>
   \<and> length (resp_errors (fst (exec_query_product (backend_answer 404 not_found) ''p1'' [Sel ''name'' []]))) \<noteq> 1"
  by (simp add: exec_query_product_def Query_product_def product_request_def Let_def
      backend_answer_def product_try_def complete_field_def product_value_def)

subsection \<open>Backend calls of a query\<close>

lemma exec_OrderItem_calls:
  "length (snd (snd (exec_OrderItem be pth it subs))) = product_fields subs"
proof (induction subs)
  case Nil
  show ?case by (simp add: product_fields_def)
next
  case (Cons s rest)
  obtain v where v: "OrderItem_product be it = (Returned v, [product_request (OrderItem_product_id it)])"
    using OrderItem_product_returns by blast
  obtain fs es cs where r: "exec_OrderItem be pth it rest = (fs, es, cs)"
    by (cases "exec_OrderItem be pth it rest") auto
  from Cons r show ?case
    by (simp add: v complete_field_def product_fields_def)
qed

lemma exec_items_calls:
  "length (snd (snd (exec_items be pth subs i its))) = length its * product_fields subs"
proof (induction its arbitrary: i)
  case Nil
  show ?case by simp
next
  case (Cons it its)
  obtain fs es cs where a: "exec_OrderItem be (pth @ [PIndex i]) it subs = (fs, es, cs)"
    by (cases "exec_OrderItem be (pth @ [PIndex i]) it subs") auto
  obtain vs es' cs' where b: "exec_items be pth subs (Suc i) its = (vs, es', cs')"
    by (cases "exec_items be pth subs (Suc i) its") auto
  have "length cs = product_fields subs"
    using exec_OrderItem_calls[of be "pth @ [PIndex i]" it subs] a by simp
  moreover have "length cs' = length its * product_fields subs"
    using Cons.IH[of "Suc i"] b by simp
  ultimately show ?case
    by (simp add: a b)
qed

lemma exec_Order_calls:
  "length (snd (snd (exec_Order be pth ord sels))) = nested_lookups sels (length (Order_items ord))"
proof (induction sels)
  case Nil
  show ?case by (simp add: nested_lookups_def)
next
  case (Cons s rest)
  obtain fs es cs where r: "exec_Order be pth ord rest = (fs, es, cs)"
    by (cases "exec_Order be pth ord rest") auto
  obtain vs es0 cs0 where a:
    "exec_items be (pth @ [PField ''items'']) (sel_subs s) 0 (Order_items ord) = (vs, es0, cs0)"
    by (cases "exec_items be (pth @ [PField ''items'']) (sel_subs s) 0 (Order_items ord)") auto
  have "length cs0 = length (Order_items ord) * product_fields (sel_subs s)"
    using exec_items_calls[of be "pth @ [PField ''items'']" "sel_subs s" 0 "Order_items ord"] a
    by simp
  moreover from Cons r have "length cs = nested_lookups rest (length (Order_items ord))" by simp
  ultimately show ?case
    by (simp add: r a nested_lookups_def)
qed

lemma product_fields_zero:
  "\<not> list_ex (\<lambda>t. sel_name t = ''product'') subs \<Longrightarrow> product_fields subs = 0"
  by (induction subs) (auto simp: product_fields_def)

lemma nested_lookups_zero:
  assumes "\<not> requests_product sels"
  shows "nested_lookups sels n = 0"
  using assms
proof (induction sels)
  case Nil
  show ?case by (simp add: nested_lookups_def)
next
  case (Cons s rest)
  from Cons.prems have a:
    "\<not> (sel_name s = ''items'' \<and> list_ex (\<lambda>t. sel_name t = ''product'') (sel_subs s))"
    by (simp add: requests_product_def)
  from Cons.prems have b: "\<not> requests_product rest"
    by (simp add: requests_product_def)
  have c: "nested_lookups rest n = 0"
    using b by (rule Cons.IH)
  have d: "(if sel_name s = ''items'' then n * product_fields (sel_subs s) else 0) = 0"
  proof (cases "sel_name s = ''items''")
    case True
    with a have "\<not> list_ex (\<lambda>t. sel_name t = ''product'') (sel_subs s)" by blast
    then have "product_fields (sel_subs s) = 0" by (rule product_fields_zero)
    with True show ?thesis by simp
  next
    case False
    then show ?thesis by simp
  qed
  have "nested_lookups (s # rest) n =
      (if sel_name s = ''items'' then n * product_fields (sel_subs s) else 0) + nested_lookups rest n"
    by (simp add: nested_lookups_def)
  with c d show ?case by simp
qed

lemma order_root_calls:
  assumes n: "\<not> requests_product sels"
  shows "snd (order_root be fname (Returned v, cs) sels) = cs"
proof (cases v)
  case None
  then show ?thesis by (simp add: order_root_def complete_field_def)
next
  case (Some ord)
  obtain fs es cs' where r: "exec_Order be [PField fname] ord sels = (fs, es, cs')"
    by (cases "exec_Order be [PField fname] ord sels") auto
  have "length (snd (snd (exec_Order be [PField fname] ord sels))) = 0"
    by (simp only: exec_Order_calls nested_lookups_zero[OF n])
  then have "cs' = []" by (simp add: r)
  with Some r show ?thesis by (simp add: order_root_def complete_field_def)
qed

text \<open>
  C2 (as amended): laziness. \<open>Query.user\<close> issues no backend call, \<open>Query.order\<close> exactly
  one, to the order service, whatever the query selects, and \<open>Query.product\<close> exactly one,
  to the catalog. A query for an order that does not select the product of its items makes
  that one call and no other. Resolving an item issues one catalog call for each \<open>product\<close>
  field the selection has on it and none otherwise, so the lookups under an order are
  those the document requested, one per item.
\<close>

theorem C2_laziness:
  "snd (Query_user now1 now2 ident) = []
   \<and> snd (Query_order be ident) = [order_request ident]
   \<and> snd (exec_query_product be ident psels) = [product_request (JStr ident)]
   \<and> (\<not> requests_product sels \<longrightarrow> snd (exec_query_order be ident sels) = [order_request ident])
   \<and> length (snd (snd (exec_OrderItem be pth it subs))) = product_fields subs
   \<and> length (snd (snd (exec_Order be pth ord sels))) = nested_lookups sels (length (Order_items ord))"
proof (intro conjI impI)
  show "snd (Query_user now1 now2 ident) = []"
    by (simp add: Query_user_def)
  show "snd (Query_order be ident) = [order_request ident]"
    by (simp add: Query_order_def Let_def)
  show "snd (exec_query_product be ident psels) = [product_request (JStr ident)]"
    by (simp add: exec_query_product_def Query_product_def Let_def split: prod.splits)
  show "length (snd (snd (exec_OrderItem be pth it subs))) = product_fields subs"
    by (rule exec_OrderItem_calls)
  show "length (snd (snd (exec_Order be pth ord sels))) = nested_lookups sels (length (Order_items ord))"
    by (rule exec_Order_calls)
next
  assume n: "\<not> requests_product sels"
  obtain v where "Query_order be ident = (Returned v, [order_request ident])"
    using Query_order_returns by blast
  then show "snd (exec_query_order be ident sels) = [order_request ident]"
    by (simp add: exec_query_order_def order_root_calls[OF n])
qed

theorem C2_witness:
  "\<not> requests_product [Sel ''id'' [], Sel ''total_amount'' [], Sel ''items'' [Sel ''name'' []]]
   \<and> snd (exec_query_order (backend_answer 200 (Some order_payload)) ''ORD-1''
            [Sel ''id'' [], Sel ''total_amount'' [], Sel ''items'' [Sel ''name'' []]])
       = [order_request ''ORD-1'']"
proof -
  have n: "\<not> requests_product [Sel ''id'' [], Sel ''total_amount'' [], Sel ''items'' [Sel ''name'' []]]"
    by (simp add: requests_product_def)
  have "\<not> requests_product [Sel ''id'' [], Sel ''total_amount'' [], Sel ''items'' [Sel ''name'' []]]
     \<longrightarrow> snd (exec_query_order (backend_answer 200 (Some order_payload)) ''ORD-1''
            [Sel ''id'' [], Sel ''total_amount'' [], Sel ''items'' [Sel ''name'' []]])
       = [order_request ''ORD-1'']"
    by (rule C2_laziness[THEN conjunct2, THEN conjunct2, THEN conjunct2, THEN conjunct1])
  with n show ?thesis by blast
qed

text \<open>
  C2 as stated fails for the user entity: a query for the scalar fields of \<open>user\<close> makes
  no backend call, not exactly one.
\<close>

theorem C2_counterexample:
  "snd (Query_user ''t0'' ''t0'' ''u1'') = []
   \<and> length (snd (Query_user ''t0'' ''t0'' ''u1'')) \<noteq> 1"
  by (simp add: Query_user_def)

subsection \<open>The order-creation mutation\<close>

lemma order_try_failed:
  "write_failed r \<Longrightarrow> order_try 201 r = Inl TransportError \<or> order_try 201 r = Inr None"
  by (cases r) (auto simp: write_failed_def order_try_def)

lemma Mutation_create_order_returns:
  "\<exists>v. Mutation_create_order be user_id items addr = (Returned v, [create_order_request user_id items addr])"
  by (simp add: Mutation_create_order_def Let_def split: sum.splits)

lemma Mutation_create_order_failed:
  "write_failed (be (create_order_request user_id items addr)) \<Longrightarrow>
   Mutation_create_order be user_id items addr = (Returned None, [create_order_request user_id items addr])"
  using order_try_failed[of "be (create_order_request user_id items addr)"]
  by (auto simp: Mutation_create_order_def Let_def)

text \<open>
  C3 (as amended): the gateway does not check the items. For every invocation with an
  empty items list it sends exactly one POST to the order service, whose body carries the
  empty list; the rejection is the order service's: its validation (\<open>min_items=1\<close>)
  answers 422 and stores nothing, and on that answer the mutation returns null.
\<close>

theorem C3_empty_items_are_forwarded:
  "snd (Mutation_create_order be user_id [] addr) = [create_order_request user_id [] addr]
   \<and> req_service (create_order_request user_id [] addr) = order
   \<and> req_method (create_order_request user_id [] addr) = POST
   \<and> req_json (create_order_request user_id [] addr) = Some (create_order_body user_id [] addr)
   \<and> subscript (create_order_body user_id [] addr) ''items'' = Inr (JArr [])
   \<and> (oc_items order_data = [] \<longrightarrow>
        post_orders order_id current_time order_data db = ((422, None), db))
   \<and> (be (create_order_request user_id [] addr) = Response 422 body \<longrightarrow>
        fst (Mutation_create_order be user_id [] addr) = Returned None)"
proof (intro conjI impI)
  show "snd (Mutation_create_order be user_id [] addr) = [create_order_request user_id [] addr]"
    by (simp add: Mutation_create_order_def Let_def)
  show "req_service (create_order_request user_id [] addr) = order"
    by (simp add: create_order_request_def)
  show "req_method (create_order_request user_id [] addr) = POST"
    by (simp add: create_order_request_def)
  show "req_json (create_order_request user_id [] addr) = Some (create_order_body user_id [] addr)"
    by (simp add: create_order_request_def)
  show "subscript (create_order_body user_id [] addr) ''items'' = Inr (JArr [])"
    by (simp add: create_order_body_def)
next
  assume "oc_items order_data = []"
  then show "post_orders order_id current_time order_data db = ((422, None), db)"
    by (simp add: post_orders_def OrderCreate_valid_def)
next
  assume "be (create_order_request user_id [] addr) = Response 422 body"
  then have "write_failed (be (create_order_request user_id [] addr))"
    by (simp add: write_failed_def)
  then show "fst (Mutation_create_order be user_id [] addr) = Returned None"
    by (simp add: Mutation_create_order_failed)
qed

theorem C3_witness:
  "oc_items empty_order = []
   \<and> post_orders ''ORD-1'' ''t0'' empty_order Map.empty = ((422, None), Map.empty)
   \<and> backend_answer 422 validation_error (create_order_request ''u1'' [] address1)
       = Response 422 validation_error
   \<and> Mutation_create_order (backend_answer 422 validation_error) ''u1'' [] address1
       = (Returned None, [create_order_request ''u1'' [] address1])"
proof -
  have a: "oc_items empty_order = []" by (simp add: empty_order_def)
  have b: "backend_answer 422 validation_error (create_order_request ''u1'' [] address1)
       = Response 422 validation_error" by (simp add: backend_answer_def)
  note t = C3_empty_items_are_forwarded
    [where be = "backend_answer 422 validation_error" and user_id = "''u1''" and addr = address1
       and order_data = empty_order and order_id = "''ORD-1''" and current_time = "''t0''"
       and db = Map.empty and body = validation_error]
  from t a have c: "post_orders ''ORD-1'' ''t0'' empty_order Map.empty = ((422, None), Map.empty)"
    by blast
  from t b have d: "fst (Mutation_create_order (backend_answer 422 validation_error) ''u1'' [] address1)
      = Returned None" by blast
  from t have e: "snd (Mutation_create_order (backend_answer 422 validation_error) ''u1'' [] address1)
      = [create_order_request ''u1'' [] address1]" by blast
  from d e have "Mutation_create_order (backend_answer 422 validation_error) ''u1'' [] address1
       = (Returned None, [create_order_request ''u1'' [] address1])"
    by (simp add: prod_eq_iff)
  with a b c show ?thesis by blast
qed

text \<open>
  C3 as stated fails: with an empty items list the mutation has issued one HTTP call to
  the order service, not zero.
\<close>

theorem C3_counterexample:
  "snd (Mutation_create_order (backend_answer 422 validation_error) ''u1'' [] address1)
     = [create_order_request ''u1'' [] address1]
   \<and> length (snd (Mutation_create_order (backend_answer 422 validation_error) ''u1'' [] address1)) \<noteq> 0"
  by (simp add: Mutation_create_order_def Let_def)

text \<open>
  C4 (as amended): every invocation issues exactly one POST (no retry). If the write fails
  (the call raises or times out, or the status is not 201), the mutation's result is null,
  so no order is reported as created, and no error entry is recorded: the response's error
  list is empty, as it is for every invocation.
\<close>

theorem C4_failed_write_null_without_error:
  "length (snd (Mutation_create_order be user_id items addr)) = 1
   \<and> resp_errors (fst (exec_mutation_create_order be user_id items addr sels)) = []
   \<and> (write_failed (be (create_order_request user_id items addr)) \<longrightarrow>
        exec_mutation_create_order be user_id items addr sels =
          (\<lparr> resp_data = JObj [(''create_order'', JNull)], resp_errors = [] \<rparr>,
           [create_order_request user_id items addr]))"
proof (intro conjI impI)
  show "length (snd (Mutation_create_order be user_id items addr)) = 1"
    by (simp add: Mutation_create_order_def Let_def)
  obtain v where "Mutation_create_order be user_id items addr
      = (Returned v, [create_order_request user_id items addr])"
    using Mutation_create_order_returns by blast
  then show "resp_errors (fst (exec_mutation_create_order be user_id items addr sels)) = []"
    by (simp add: exec_mutation_create_order_def order_root_errors)
next
  assume "write_failed (be (create_order_request user_id items addr))"
  then show "exec_mutation_create_order be user_id items addr sels =
          (\<lparr> resp_data = JObj [(''create_order'', JNull)], resp_errors = [] \<rparr>,
           [create_order_request user_id items addr])"
    by (simp add: exec_mutation_create_order_def Mutation_create_order_failed order_root_def
        complete_field_def)
qed

theorem C4_witness:
  "write_failed (backend_down (create_order_request ''u1'' [item_json1] address1))
   \<and> exec_mutation_create_order backend_down ''u1'' [item_json1] address1 [Sel ''id'' []] =
          (\<lparr> resp_data = JObj [(''create_order'', JNull)], resp_errors = [] \<rparr>,
           [create_order_request ''u1'' [item_json1] address1])"
proof -
  have a: "write_failed (backend_down (create_order_request ''u1'' [item_json1] address1))"
    by (simp add: write_failed_def backend_down_def)
  with C4_failed_write_null_without_error
    [where be = backend_down and user_id = "''u1''" and items = "[item_json1]" and addr = address1
       and sels = "[Sel ''id'' []]"]
  show ?thesis by blast
qed

text \<open>
  C4 as stated fails: with the order service unreachable the response is
  \<open>{"data": {"create_order": null}}\<close> with an empty error list, not one entry.
\<close>

theorem C4_counterexample:
  "fst (exec_mutation_create_order backend_down ''u1'' [item_json1] address1 [Sel ''id'' []]) =
     \<lparr> resp_data = JObj [(''create_order'', JNull)], resp_errors = [] \<rparr>
   \<and> length (resp_errors (fst (exec_mutation_create_order backend_down ''u1'' [item_json1] address1
        [Sel ''id'' []]))) \<noteq> 1"
  by (simp add: exec_mutation_create_order_def Mutation_create_order_def Let_def backend_down_def
      order_try_def order_root_def complete_field_def)

text \<open>
  C6 (as amended): the mutation takes a user id, a list of items (empty or not) and a
  shipping address, and no payment method. For every invocation it sends exactly one POST
  to the order service whose body carries the user id, the items and the shipping address
  as given, and the payment method \<open>card\<close>.
\<close>

theorem C6_one_post_with_card:
  "snd (Mutation_create_order be user_id items addr) = [create_order_request user_id items addr]
   \<and> req_service (create_order_request user_id items addr) = order
   \<and> req_method (create_order_request user_id items addr) = POST
   \<and> req_json (create_order_request user_id items addr) = Some (create_order_body user_id items addr)
   \<and> subscript (create_order_body user_id items addr) ''user_id'' = Inr (JStr user_id)
   \<and> subscript (create_order_body user_id items addr) ''items'' = Inr (JArr items)
   \<and> subscript (create_order_body user_id items addr) ''shipping_address'' = Inr addr
   \<and> subscript (create_order_body user_id items addr) ''payment_method'' = Inr (JStr ''card'')"
  by (simp add: Mutation_create_order_def Let_def create_order_request_def create_order_body_def)

text \<open>
  C6 as stated fails: a client that wants to pay by \<open>paypal\<close> cannot say so, the body
  sent is not the one carrying that tag; and an empty items list is accepted and sent.
\<close>

theorem C6_counterexample:
  "map req_json (snd (Mutation_create_order backend_down ''u1'' [item_json1] address1))
     \<noteq> [Some (spec_forwarded_body ''u1'' [item_json1] address1 ''paypal'')]
   \<and> snd (Mutation_create_order backend_down ''u1'' [] address1)
       = [create_order_request ''u1'' [] address1]"
  by (simp add: Mutation_create_order_def Let_def create_order_request_def create_order_body_def
      spec_forwarded_body_def)

subsection \<open>The order service's totals\<close>





subsection \<open>Order fields pass through\<close>










subsection \<open>The product adapter\<close>













subsection \<open>List-valued resolvers\<close>












end
